theory Spec2Isabelle
  imports Main
begin

section \<open>Data model\<close>

text \<open>
  Modelled from the spec: the entity declarations \<^verbatim>\<open>users/entities/user.entity\<close> and
  \<^verbatim>\<open>tasks/entities/task.entity\<close> are not among the sources. The fields below are the
  ones the spec's data model and the fixtures of the unit tests list: a user has an id, an
  email, a hashed password and a role (its timestamps and its list of tasks, which no
  service reads, are left out); a task has an id, a title, an optional description, a
  status, an optional due date, the owning user, the \<^verbatim>\<open>userId\<close> property and the creation
  and update timestamps, which are time values in milliseconds. The \<^verbatim>\<open>userId\<close> column of
  a stored task is the join column of its \<^verbatim>\<open>user\<close> relation: a query on that column reads
  the id of the owning user.
\<close>

datatype UserRole = ADMIN | USER

record User =
  user_id :: string
  email :: string
  password :: string
  role :: UserRole

text \<open>
  \<^verbatim>\<open>Partial<User>\<close>: every key may be absent. \<open>validateUser\<close> returns one, \<open>login\<close>
  takes one.
\<close>

record PartialUser =
  partial_id :: "string option"
  partial_email :: "string option"
  partial_password :: "string option"
  partial_role :: "UserRole option"

record Task =
  task_id :: string
  title :: string
  description :: "string option"
  status :: string
  dueDate :: "string option"
  user :: User
  userId :: string
  createdAt :: int
  updatedAt :: int

text \<open>
  The exceptions the services throw, each with its message. \<open>QueryFailedError\<close> is the
  store's own error (a statement the database refuses), which no service catches.
\<close>

datatype Exception =
    BadRequestException string
  | UnauthorizedException string
  | ForbiddenException string
  | NotFoundException string
  | QueryFailedError

text \<open>
  The HTTP status of an exception: that of its class, whatever the message. An error that
  is no HTTP exception is answered with status 500.
\<close>

fun getStatus :: "Exception \<Rightarrow> nat" where
  "getStatus (BadRequestException m) = 400"
| "getStatus (UnauthorizedException m) = 401"
| "getStatus (ForbiddenException m) = 403"
| "getStatus (NotFoundException m) = 404"
| "getStatus QueryFailedError = 500"

text \<open>
  JavaScript truthiness of an optional string: \<^verbatim>\<open>undefined\<close> and the empty string are
  falsy, every other string is truthy.
\<close>

definition truthy :: "string option \<Rightarrow> bool" where
  "truthy v = (case v of None \<Rightarrow> False | Some s \<Rightarrow> s \<noteq> [])"

section \<open>Auth service\<close>

subsection \<open>Email shape\<close>

text \<open>
  \<^verbatim>\<open>/^[^\s@]+@[^\s@]+\.[^\s@]+$/\<close>. The class \<^verbatim>\<open>[^\s@]\<close> excludes \<^verbatim>\<open>@\<close> and white space
  (of the characters below 256: tab, line feed, vertical tab, form feed, carriage return,
  space and the no-break space).
\<close>

definition excluded :: "char \<Rightarrow> bool" where
  "excluded c \<longleftrightarrow>
     c \<in> set [CHR ''@'', CHR '' '', CHR 0x09, CHR 0x0A, CHR 0x0B, CHR 0x0C, CHR 0x0D, CHR 0xA0]"

text \<open>
  The first \<^verbatim>\<open>[^\s@]+\<close> takes the longest run of admitted characters, which must not be
  empty and must stop at an \<^verbatim>\<open>@\<close>; what follows the \<^verbatim>\<open>@\<close> holds admitted characters only,
  with a dot that is neither its first nor its last character.
\<close>

definition isValidEmail :: "string \<Rightarrow> bool" where
  "isValidEmail e =
     (let local_part = takeWhile (\<lambda>c. \<not> excluded c) e;
          rest = dropWhile (\<lambda>c. \<not> excluded c) e
      in local_part \<noteq> [] \<and>
         (case rest of
            [] \<Rightarrow> False
          | c # domain \<Rightarrow>
              c = CHR ''@'' \<and> \<not> list_ex excluded domain \<and>
              CHR ''.'' \<in> set (butlast (tl domain))))"

subsection \<open>User directory\<close>

text \<open>
  Modelled from the spec: the user directory is the store's repository, whose code is
  not among the sources: \<open>findByEmail\<close> and \<open>findUserById\<close> return the first matching row or
  nothing, and saving a new user appends a row carrying the id the store generated.
\<close>

definition findByEmail :: "User list \<Rightarrow> string \<Rightarrow> User option" where
  "findByEmail users e = find (\<lambda>u. email u = e) users"

definition findUserById :: "User list \<Rightarrow> string \<Rightarrow> User option" where
  "findUserById users i = find (\<lambda>u. user_id u = i) users"

subsection \<open>register\<close>

text \<open>
  \<open>hash\<close> is the credential hasher at this call (\<^verbatim>\<open>bcrypt.hash(password, 10)\<close>) and
  \<open>newId\<close> the id the store gives the new row.
\<close>

definition register ::
  "(string \<Rightarrow> string) \<Rightarrow> string \<Rightarrow> User list \<Rightarrow> string \<Rightarrow> string
     \<Rightarrow> Exception + (User \<times> User list)" where
  "register hash newId users e pw =
     (if \<not> isValidEmail e then Inl (BadRequestException ''Invalid email format'')
      else if length pw < 6 then
        Inl (BadRequestException ''Password must be at least 6 characters long'')
      else
        (case findByEmail users e of
           Some existingUser \<Rightarrow> Inl (BadRequestException ''Email already exists'')
         | None \<Rightarrow>
             (let hashedPassword = hash pw;
                  r = (if e = ''admin@example.com'' then ADMIN else USER);
                  u = \<lparr>user_id = newId, email = e, password = hashedPassword, role = r\<rparr>
              in Inr (u, users @ [u]))))"

subsection \<open>validateUser\<close>

text \<open>
  \<open>compare\<close> is \<^verbatim>\<open>bcrypt.compare\<close>. The result is the found user without its
  \<^verbatim>\<open>password\<close> key (\<^verbatim>\<open>const { password: _, ...result } = user\<close>), or nothing.
\<close>

definition without_password :: "User \<Rightarrow> PartialUser" where
  "without_password u =
     \<lparr>partial_id = Some (user_id u), partial_email = Some (email u),
      partial_password = None, partial_role = Some (role u)\<rparr>"

definition validateUser ::
  "(string \<Rightarrow> string \<Rightarrow> bool) \<Rightarrow> User list \<Rightarrow> string \<Rightarrow> string \<Rightarrow> PartialUser option" where
  "validateUser compare users e pw =
     (case findByEmail users e of
        None \<Rightarrow> None
      | Some u \<Rightarrow> if \<not> compare pw (password u) then None else Some (without_password u))"

subsection \<open>login and refreshToken\<close>

record TokenPayload =
  sub :: "string option"
  payload_email :: "string option"
  payload_role :: "UserRole option"

record Tokens =
  access_token :: string
  refresh_token :: string

text \<open>A \<^verbatim>\<open>User\<close> passed where a \<^verbatim>\<open>Partial<User>\<close> is expected: every key present.\<close>

definition as_partial :: "User \<Rightarrow> PartialUser" where
  "as_partial u =
     \<lparr>partial_id = Some (user_id u), partial_email = Some (email u),
      partial_password = Some (password u), partial_role = Some (role u)\<rparr>"

text \<open>
  \<open>sign\<close> and \<open>signRefresh\<close> are the two token issuers (\<^verbatim>\<open>jwtService.sign\<close> and
  \<^verbatim>\<open>refreshJwtService.sign\<close>), each with its own secret and expiry.
\<close>

definition login ::
  "(TokenPayload \<Rightarrow> string) \<Rightarrow> (TokenPayload \<Rightarrow> string) \<Rightarrow> PartialUser \<Rightarrow> Tokens" where
  "login sign signRefresh u =
     (let payload = \<lparr>sub = partial_id u, payload_email = partial_email u,
                     payload_role = partial_role u\<rparr>
      in \<lparr>access_token = sign payload, refresh_token = signRefresh payload\<rparr>)"

text \<open>
  \<open>verify\<close> is \<^verbatim>\<open>refreshJwtService.verify\<close>: nothing when it throws (bad signature,
  malformed or expired token), the decoded payload otherwise. Every exception raised
  inside the \<^verbatim>\<open>try\<close> block, the two the block throws itself included, is caught and
  replaced by the same \<^verbatim>\<open>UnauthorizedException\<close>. A role, when the payload has one, is
  a non-empty string and so truthy.
\<close>

definition refreshToken ::
  "(string \<Rightarrow> TokenPayload option) \<Rightarrow> (TokenPayload \<Rightarrow> string) \<Rightarrow> (TokenPayload \<Rightarrow> string)
     \<Rightarrow> User list \<Rightarrow> string \<Rightarrow> Exception + Tokens" where
  "refreshToken verify sign signRefresh users token =
     (case verify token of
        None \<Rightarrow> Inl (UnauthorizedException ''Invalid refresh token'')
      | Some payload \<Rightarrow>
          if \<not> truthy (sub payload) \<or> \<not> truthy (payload_email payload)
             \<or> payload_role payload = None
          then Inl (UnauthorizedException ''Invalid refresh token'')
          else
            (case findUserById users (the (sub payload)) of
               None \<Rightarrow> Inl (UnauthorizedException ''Invalid refresh token'')
             | Some u \<Rightarrow> Inr (login sign signRefresh (as_partial u))))"

section \<open>Task service\<close>

subsection \<open>Inputs\<close>

text \<open>
  The body of a create request as the service receives it: every key may be absent, and
  a present key holds a string. The service is written for values that are not of the
  declared type (an unknown status, a string that is no date), so status and due date
  are the raw strings.
\<close>

record CreateTaskDto =
  dto_title :: "string option"
  dto_description :: "string option"
  dto_status :: "string option"
  dto_dueDate :: "string option"

text \<open>
  \<^verbatim>\<open>Partial<Task>\<close>, the declared type of the patch of \<open>update\<close>: each property of a task
  may be present.
\<close>

record PartialTask =
  patch_id :: "string option"
  patch_title :: "string option"
  patch_description :: "string option"
  patch_status :: "string option"
  patch_dueDate :: "string option"
  patch_user :: "User option"
  patch_userId :: "string option"
  patch_createdAt :: "int option"
  patch_updatedAt :: "int option"

text \<open>\<^verbatim>\<open>Object.values(TaskStatus)\<close>.\<close>

definition TaskStatus_values :: "string list" where
  "TaskStatus_values = [''TODO'', ''IN_PROGRESS'', ''DONE'']"

text \<open>
  \<^verbatim>\<open>x.status && !Object.values(TaskStatus).includes(x.status)\<close>: the guard of the status
  check, on the value of the key.
\<close>

definition invalid_status :: "string option \<Rightarrow> bool" where
  "invalid_status v =
     (case v of None \<Rightarrow> False | Some s \<Rightarrow> s \<noteq> [] \<and> s \<notin> set TaskStatus_values)"

text \<open>
  \<^verbatim>\<open>x.dueDate && isNaN(new Date(x.dueDate).getTime())\<close>. \<open>getTime\<close> is the time value of
  \<^verbatim>\<open>new Date(s)\<close>, nothing when it is \<^verbatim>\<open>NaN\<close>: the date parser of the runtime.
\<close>

definition invalid_dueDate :: "(string \<Rightarrow> int option) \<Rightarrow> string option \<Rightarrow> bool" where
  "invalid_dueDate getTime v =
     (case v of None \<Rightarrow> False | Some s \<Rightarrow> s \<noteq> [] \<and> getTime s = None)"

subsection \<open>Numbers\<close>

text \<open>
  The page and the limit are JavaScript numbers, and \<^verbatim>\<open>(page - 1) * limit\<close> is computed
  in double precision: each operation gives the double nearest to the exact result, the
  even one of two equally near. \<open>to_double\<close> is that rounding on the integers; an integer
  of at most 53 bits is a double. (The doubles end near \<open>2 ^ 1024\<close>; an integer beyond them
  is kept as it is, every number above 64 bits being refused by the store alike.)
\<close>

fun bit_length :: "int \<Rightarrow> nat" where
  "bit_length a = (if a \<le> 0 then 0 else Suc (bit_length (a div 2)))"

declare bit_length.simps [simp del]

definition to_double :: "int \<Rightarrow> int" where
  "to_double x =
     (let a = \<bar>x\<bar>; n = bit_length a
      in if n \<le> 53 then x
         else
           (let e = n - 53; q = a div 2 ^ e; r = a mod 2 ^ e;
                m = (if 2 ^ e < 2 * r \<or> (2 * r = 2 ^ e \<and> odd q) then q + 1 else q)
            in sgn x * (m * 2 ^ e)))"

definition js_minus :: "int \<Rightarrow> int \<Rightarrow> int" where
  "js_minus a b = to_double (a - b)"

definition js_times :: "int \<Rightarrow> int \<Rightarrow> int" where
  "js_times a b = to_double (a * b)"

subsection \<open>Task store\<close>

text \<open>
  Modelled from the spec: the task store is the store's repository over the database,
  whose code is not among the sources. The table is the list of its rows in the order a
  query returns them. It holds only rows whose status is one of the three values and
  whose due date, when there is one, is a date (the invariant of a task in the spec's
  data model); the store refuses any other row with its own error.
  \<open>findTaskById\<close> returns the first row with the id or nothing. \<open>repository_create\<close>
  builds the entity from the given fields and the owner, and \<open>insert_task\<close> adds it as a
  new row, with the id the store generates, the default status \<^verbatim>\<open>TODO\<close> when no status is
  given, and the time of the insertion as both timestamps. \<open>save\<close> writes a loaded entity
  under its id, over the row that has this id if there is one: the \<^verbatim>\<open>userId\<close> column
  takes the id of the \<^verbatim>\<open>user\<close> relation, whatever the \<^verbatim>\<open>userId\<close> property holds, and the
  update timestamp takes the value \<open>now\<close> that the store gives it at this save; the
  saved entity is returned as the store holds it. \<open>delete_task\<close> removes the rows with
  the entity's id.
\<close>

definition findTaskById :: "Task list \<Rightarrow> string \<Rightarrow> Task option" where
  "findTaskById rows i = find (\<lambda>t. task_id t = i) rows"

definition store_accepts :: "(string \<Rightarrow> int option) \<Rightarrow> Task \<Rightarrow> bool" where
  "store_accepts getTime t \<longleftrightarrow>
     status t \<in> set TaskStatus_values \<and>
     (case dueDate t of None \<Rightarrow> True | Some s \<Rightarrow> getTime s \<noteq> None)"

definition repository_create :: "string \<Rightarrow> int \<Rightarrow> CreateTaskDto \<Rightarrow> User \<Rightarrow> Task" where
  "repository_create newId now dto u =
     \<lparr>task_id = newId,
      title = (case dto_title dto of None \<Rightarrow> [] | Some s \<Rightarrow> s),
      description = dto_description dto,
      status = (case dto_status dto of None \<Rightarrow> ''TODO'' | Some s \<Rightarrow> s),
      dueDate = dto_dueDate dto,
      user = u,
      userId = user_id u,
      createdAt = now,
      updatedAt = now\<rparr>"

definition insert_task ::
  "(string \<Rightarrow> int option) \<Rightarrow> Task list \<Rightarrow> Task \<Rightarrow> Exception + (Task \<times> Task list)" where
  "insert_task getTime rows t =
     (if \<not> store_accepts getTime t then Inl QueryFailedError else Inr (t, rows @ [t]))"

definition write_row :: "Task list \<Rightarrow> Task \<Rightarrow> Task list" where
  "write_row rows t =
     (case findTaskById rows (task_id t) of
        None \<Rightarrow> rows @ [t]
      | Some old \<Rightarrow> map (\<lambda>r. if task_id r = task_id t then t else r) rows)"

definition save ::
  "(string \<Rightarrow> int option) \<Rightarrow> int \<Rightarrow> Task list \<Rightarrow> Task \<Rightarrow> Exception + (Task \<times> Task list)" where
  "save getTime now rows t =
     (if \<not> store_accepts getTime t then Inl QueryFailedError
      else
        (let saved = t\<lparr>userId := user_id (user t), updatedAt := now\<rparr>
         in Inr (saved, write_row rows saved)))"

definition delete_task :: "Task list \<Rightarrow> Task \<Rightarrow> Task list" where
  "delete_task rows t = filter (\<lambda>r. task_id r \<noteq> task_id t) rows"

subsection \<open>Queries\<close>

text \<open>
  What \<open>findAll\<close> builds with the query builder: up to three \<^verbatim>\<open>where\<close> clauses, each
  present or not, to which it adds an offset and a limit. The due date of a clause is a \<^verbatim>\<open>Date\<close> object,
  given by its time value, nothing when the date is invalid.

  Modelled from the spec: the store answers a query with the page of the matching rows
  and the number of all matching rows. A row matches the owner clause when its owning
  user has the id, the status clause when it has the status, and the due date clause
  when its due date is the same instant. The store refuses the query, with its own error,
  when the date of the clause is invalid and when the offset or the limit is negative or
  beyond the 64-bit integers of the database.
\<close>

record Query =
  where_userId :: "string option"
  where_status :: "string option"
  where_dueDate :: "int option option"

record TaskPage =
  tasks :: "Task list"
  total_count :: nat

definition row_matches :: "(string \<Rightarrow> int option) \<Rightarrow> Query \<Rightarrow> Task \<Rightarrow> bool" where
  "row_matches getTime q t \<longleftrightarrow>
     (case where_userId q of None \<Rightarrow> True | Some i \<Rightarrow> user_id (user t) = i) \<and>
     (case where_status q of None \<Rightarrow> True | Some s \<Rightarrow> status t = s) \<and>
     (case where_dueDate q of
        None \<Rightarrow> True
      | Some d \<Rightarrow> (case dueDate t of None \<Rightarrow> False | Some s \<Rightarrow> d \<noteq> None \<and> getTime s = d))"

definition max_bigint :: int where
  "max_bigint = 9223372036854775807"

definition getManyAndCount ::
  "(string \<Rightarrow> int option) \<Rightarrow> Task list \<Rightarrow> Query \<Rightarrow> int \<Rightarrow> int \<Rightarrow> Exception + TaskPage" where
  "getManyAndCount getTime rows q skip_n take_n =
     (if where_dueDate q = Some None \<or> skip_n < 0 \<or> take_n < 0
         \<or> max_bigint < skip_n \<or> max_bigint < take_n
      then Inl QueryFailedError
      else
        (let matching = filter (row_matches getTime q) rows
         in Inr \<lparr>tasks = take (nat take_n) (drop (nat skip_n) matching),
                  total_count = length matching\<rparr>))"

subsection \<open>create\<close>

text \<open>\<open>now\<close> is the time of the insertion and \<open>newId\<close> the id the store gives the row.\<close>

definition create ::
  "(string \<Rightarrow> int option) \<Rightarrow> int \<Rightarrow> string \<Rightarrow> Task list \<Rightarrow> CreateTaskDto \<Rightarrow> User
     \<Rightarrow> Exception + (Task \<times> Task list)" where
  "create getTime now newId rows createTaskDto u =
     (if \<not> truthy (dto_title createTaskDto) then
        Inl (BadRequestException ''Title is required'')
      else if invalid_status (dto_status createTaskDto) then
        Inl (BadRequestException ''Invalid task status'')
      else if invalid_dueDate getTime (dto_dueDate createTaskDto) then
        Inl (BadRequestException ''Invalid due date format'')
      else
        (let task = repository_create newId now createTaskDto u
         in insert_task getTime rows task))"

subsection \<open>findAll\<close>

text \<open>
  \<^verbatim>\<open>page ? (page - 1) * (limit || 10) : 0\<close> and \<^verbatim>\<open>limit || 10\<close>: an absent number and
  the number 0 are falsy.
\<close>

definition limit_or_10 :: "int option \<Rightarrow> int" where
  "limit_or_10 limit = (case limit of None \<Rightarrow> 10 | Some l \<Rightarrow> if l = 0 then 10 else l)"

definition skip_of :: "int option \<Rightarrow> int option \<Rightarrow> int" where
  "skip_of page limit =
     (case page of
        None \<Rightarrow> 0
      | Some p \<Rightarrow> if p = 0 then 0 else js_times (js_minus p 1) (limit_or_10 limit))"

text \<open>
  The owner clause is added when the role of the acting user is not \<^verbatim>\<open>ADMIN\<close>, the
  status clause when the status is truthy, and the due date clause when a date is given:
  a \<^verbatim>\<open>Date\<close> object is truthy, also an invalid one.
\<close>

definition query_of :: "User \<Rightarrow> string option \<Rightarrow> int option option \<Rightarrow> Query" where
  "query_of u status_filter dueDate_filter =
     \<lparr>where_userId = (if role u \<noteq> ADMIN then Some (user_id u) else None),
      where_status = (if truthy status_filter then status_filter else None),
      where_dueDate = dueDate_filter\<rparr>"

definition findAll ::
  "(string \<Rightarrow> int option) \<Rightarrow> Task list \<Rightarrow> User \<Rightarrow> string option \<Rightarrow> int option option
     \<Rightarrow> int option \<Rightarrow> int option \<Rightarrow> Exception + TaskPage" where
  "findAll getTime rows u status_filter dueDate_filter page limit =
     getManyAndCount getTime rows (query_of u status_filter dueDate_filter)
       (skip_of page limit) (limit_or_10 limit)"

subsection \<open>findOne, update, remove\<close>

definition findOne :: "Task list \<Rightarrow> string \<Rightarrow> User \<Rightarrow> Exception + Task" where
  "findOne rows i u =
     (case findTaskById rows i of
        None \<Rightarrow> Inl (NotFoundException (''Task with ID '' @ i @ '' not found''))
      | Some task \<Rightarrow>
          if role u \<noteq> ADMIN \<and> user_id (user task) \<noteq> user_id u then
            Inl (ForbiddenException ''You do not have permission to access this task'')
          else Inr task)"

text \<open>\<^verbatim>\<open>Object.assign(task, updateTaskDto)\<close>: each key of the patch overwrites the task's.\<close>

definition assign :: "Task \<Rightarrow> PartialTask \<Rightarrow> Task" where
  "assign task p =
     \<lparr>task_id = (case patch_id p of None \<Rightarrow> task_id task | Some v \<Rightarrow> v),
      title = (case patch_title p of None \<Rightarrow> title task | Some v \<Rightarrow> v),
      description = (case patch_description p of None \<Rightarrow> description task | Some v \<Rightarrow> Some v),
      status = (case patch_status p of None \<Rightarrow> status task | Some v \<Rightarrow> v),
      dueDate = (case patch_dueDate p of None \<Rightarrow> dueDate task | Some v \<Rightarrow> Some v),
      user = (case patch_user p of None \<Rightarrow> user task | Some v \<Rightarrow> v),
      userId = (case patch_userId p of None \<Rightarrow> userId task | Some v \<Rightarrow> v),
      createdAt = (case patch_createdAt p of None \<Rightarrow> createdAt task | Some v \<Rightarrow> v),
      updatedAt = (case patch_updatedAt p of None \<Rightarrow> updatedAt task | Some v \<Rightarrow> v)\<rparr>"

text \<open>\<open>now\<close> is the update timestamp the store gives the row at this save.\<close>

definition update ::
  "(string \<Rightarrow> int option) \<Rightarrow> int \<Rightarrow> Task list \<Rightarrow> string \<Rightarrow> PartialTask \<Rightarrow> User
     \<Rightarrow> Exception + (Task \<times> Task list)" where
  "update getTime now rows i updateTaskDto u =
     (case findOne rows i u of
        Inl e \<Rightarrow> Inl e
      | Inr task \<Rightarrow>
          if invalid_status (patch_status updateTaskDto) then
            Inl (BadRequestException ''Invalid task status'')
          else if invalid_dueDate getTime (patch_dueDate updateTaskDto) then
            Inl (BadRequestException ''Invalid due date format'')
          else save getTime now rows (assign task updateTaskDto))"

definition remove_task :: "Task list \<Rightarrow> string \<Rightarrow> User \<Rightarrow> Exception + Task list" where
  "remove_task rows i u =
     (case findOne rows i u of
        Inl e \<Rightarrow> Inl e
      | Inr task \<Rightarrow> Inr (delete_task rows task))"

section \<open>Fixtures of the worked examples\<close>

text \<open>
  The users and the task of the unit tests, and stand-ins for the collaborators at the
  inputs the examples use: a hasher with its comparison, the time value of the date
  strings the tests use (\<^verbatim>\<open>invalid-date\<close> and the empty string give \<^verbatim>\<open>NaN\<close>), and the
  two token issuers with the verifier of refresh tokens.
\<close>

definition sample_hash :: "string \<Rightarrow> string" where
  "sample_hash pw = ''$2b$10$'' @ pw"

definition sample_compare :: "string \<Rightarrow> string \<Rightarrow> bool" where
  "sample_compare pw h \<longleftrightarrow> h = sample_hash pw"

definition sample_getTime :: "string \<Rightarrow> int option" where
  "sample_getTime s =
     (if s = ''2024-04-15T00:00:00.000Z'' then Some 1713139200000
      else if s = ''2024-04-15'' then Some 1713139200000
      else if s = ''2024-04-16T00:00:00.000Z'' then Some 1713225600000
      else None)"

definition sample_sign :: "TokenPayload \<Rightarrow> string" where
  "sample_sign p = ''access:'' @ (case sub p of None \<Rightarrow> [] | Some i \<Rightarrow> i)"

definition sample_signRefresh :: "TokenPayload \<Rightarrow> string" where
  "sample_signRefresh p = ''refresh:'' @ (case sub p of None \<Rightarrow> [] | Some i \<Rightarrow> i)"

definition sample_verify :: "string \<Rightarrow> TokenPayload option" where
  "sample_verify token =
     (if token = ''refresh:1'' then
        Some \<lparr>sub = Some ''1'', payload_email = Some ''user@example.com'',
              payload_role = Some USER\<rparr>
      else if token = ''refresh:9'' then
        Some \<lparr>sub = Some ''9'', payload_email = Some ''gone@example.com'',
              payload_role = Some USER\<rparr>
      else if token = ''refresh:no-email'' then
        Some \<lparr>sub = Some ''1'', payload_email = None, payload_role = Some USER\<rparr>
      else None)"

definition mockUser :: User where
  "mockUser = \<lparr>user_id = ''1'', email = ''user@example.com'',
                password = ''hashedPassword'', role = USER\<rparr>"

definition mockAdminUser :: User where
  "mockAdminUser = \<lparr>user_id = ''2'', email = ''admin@example.com'',
                     password = ''hashedPassword'', role = ADMIN\<rparr>"

definition otherUser :: User where
  "otherUser = \<lparr>user_id = ''3'', email = ''other@example.com'',
                 password = ''hashedPassword'', role = USER\<rparr>"

text \<open>Two readings of the clock, a minute apart.\<close>

definition time_created :: int where
  "time_created = 1713000000000"

definition time_updated :: int where
  "time_updated = 1713000060000"

definition mockTask :: Task where
  "mockTask = \<lparr>task_id = ''1'', title = ''Test Task'',
                description = Some ''Test Description'', status = ''TODO'',
                dueDate = Some ''2024-04-15T00:00:00.000Z'', user = mockUser,
                userId = ''1'', createdAt = time_created, updatedAt = time_created\<rparr>"

definition otherTask :: Task where
  "otherTask = \<lparr>task_id = ''2'', title = ''Other Task'', description = None,
                 status = ''IN_PROGRESS'', dueDate = None, user = otherUser,
                 userId = ''3'', createdAt = time_created, updatedAt = time_created\<rparr>"


definition no_patch :: PartialTask where
  "no_patch = \<lparr>patch_id = None, patch_title = None, patch_description = None,
                patch_status = None, patch_dueDate = None, patch_user = None,
                patch_userId = None, patch_createdAt = None, patch_updatedAt = None\<rparr>"

definition bad_patch :: PartialTask where
  "bad_patch = no_patch\<lparr>patch_status := Some ''INVALID_STATUS'',
                         patch_dueDate := Some ''invalid-date''\<rparr>"

section \<open>Registration\<close>

lemma not_excluded_dot: "\<not> excluded (CHR ''.'')"
  by (simp add: excluded_def)

lemma excluded_at: "excluded (CHR ''@'')"
  by (simp add: excluded_def)

text \<open>
  The strings \<open>isValidEmail\<close> accepts are those of the regular expression: a non-empty
  run of admitted characters, an \<^verbatim>\<open>@\<close>, a second non-empty run, a dot and a third
  non-empty run.
\<close>

lemma isValidEmail_shape:
  "isValidEmail e \<longleftrightarrow>
     (\<exists>a b c. e = a @ ''@'' @ b @ ''.'' @ c \<and> a \<noteq> [] \<and> b \<noteq> [] \<and> c \<noteq> []
        \<and> (\<forall>x \<in> set (a @ b @ c). \<not> excluded x))"
proof
  assume v: "isValidEmail e"
  let ?a = "takeWhile (\<lambda>c. \<not> excluded c) e"
  let ?rest = "dropWhile (\<lambda>c. \<not> excluded c) e"
  from v have a: "?a \<noteq> []" by (simp add: isValidEmail_def Let_def)
  from v obtain dom where rest: "?rest = CHR ''@'' # dom"
    and dom: "\<not> list_ex excluded dom" and dot: "CHR ''.'' \<in> set (butlast (tl dom))"
    by (auto simp: isValidEmail_def Let_def split: list.splits)
  from dot obtain xs ys where bl: "butlast (tl dom) = xs @ CHR ''.'' # ys"
    by (auto dest: split_list)
  then have tlne: "tl dom \<noteq> []" by auto
  then have domne: "dom \<noteq> []" by auto
  from tlne have "tl dom = butlast (tl dom) @ [last (tl dom)]" by simp
  with bl have tl: "tl dom = xs @ CHR ''.'' # ys @ [last (tl dom)]" by simp
  from domne have "dom = hd dom # tl dom" by simp
  with tl have d: "dom = (hd dom # xs) @ ''.'' @ (ys @ [last (tl dom)])" by simp
  have e: "e = ?a @ ?rest" by simp
  have "e = ?a @ ''@'' @ (hd dom # xs) @ ''.'' @ (ys @ [last (tl dom)])"
    using d rest by (subst e) simp
  moreover have "\<forall>x \<in> set ?a. \<not> excluded x"
    by (auto dest: set_takeWhileD)
  moreover have "\<forall>x \<in> set dom. \<not> excluded x"
    using dom by (simp add: list_ex_iff)
  then have "\<forall>x \<in> set ((hd dom # xs) @ (ys @ [last (tl dom)])). \<not> excluded x"
    by (subst (asm) d) auto
  ultimately show "\<exists>a b c. e = a @ ''@'' @ b @ ''.'' @ c \<and> a \<noteq> [] \<and> b \<noteq> [] \<and> c \<noteq> []
        \<and> (\<forall>x \<in> set (a @ b @ c). \<not> excluded x)"
    using a by (intro exI [of _ ?a] exI [of _ "hd dom # xs"] exI [of _ "ys @ [last (tl dom)]"]) auto
next
  assume "\<exists>a b c. e = a @ ''@'' @ b @ ''.'' @ c \<and> a \<noteq> [] \<and> b \<noteq> [] \<and> c \<noteq> []
        \<and> (\<forall>x \<in> set (a @ b @ c). \<not> excluded x)"
  then obtain a b c where e: "e = a @ CHR ''@'' # (b @ CHR ''.'' # c)"
    and ne: "a \<noteq> []" "b \<noteq> []" "c \<noteq> []"
    and ok: "\<forall>x \<in> set a. \<not> excluded x" "\<forall>x \<in> set b. \<not> excluded x"
      "\<forall>x \<in> set c. \<not> excluded x"
    by auto
  from ok(1) have tw: "takeWhile (\<lambda>c. \<not> excluded c) e = a"
    by (simp add: e takeWhile_tail excluded_at)
  from ok(1) have dw: "dropWhile (\<lambda>c. \<not> excluded c) e = CHR ''@'' # (b @ CHR ''.'' # c)"
    by (simp add: e dropWhile_append3 excluded_at)
  from ne obtain b0 bs where b: "b = b0 # bs" by (cases b) auto
  from ne have c: "c = butlast c @ [last c]" by simp
  have "tl (b @ CHR ''.'' # c) = bs @ CHR ''.'' # c" by (simp add: b)
  moreover have "butlast (bs @ CHR ''.'' # c) = bs @ CHR ''.'' # butlast c"
    using ne by (simp add: butlast_append)
  ultimately have dot: "CHR ''.'' \<in> set (butlast (tl (b @ CHR ''.'' # c)))" by simp
  have "\<not> list_ex excluded (b @ CHR ''.'' # c)"
    using ok by (auto simp: list_ex_iff not_excluded_dot)
  with tw dw ne dot show "isValidEmail e"
    by (simp add: isValidEmail_def Let_def)
qed

lemma isValidEmail_samples:
  "isValidEmail ''admin@example.com''" "isValidEmail ''test@example.com''"
  "isValidEmail ''user@example.com''" "\<not> isValidEmail ''invalid-email''"
  by (simp_all add: isValidEmail_def excluded_def)

lemma register_Inr_iff:
  "register hash newId users e pw = Inr (u, users') \<longleftrightarrow>
     isValidEmail e \<and> 6 \<le> length pw \<and> findByEmail users e = None \<and>
     u = \<lparr>user_id = newId, email = e, password = hash pw,
          role = (if e = ''admin@example.com'' then ADMIN else USER)\<rparr> \<and>
     users' = users @ [u]"
  by (auto simp: register_def Let_def split: option.splits)

lemma findByEmail_append_new:
  "findByEmail users e = None \<Longrightarrow> email u = e \<Longrightarrow> findByEmail (users @ [u]) e = Some u"
  by (induction users) (auto simp: findByEmail_def split: if_splits)

lemma register_sample_user:
  "register sample_hash ''1'' [] ''test@example.com'' ''password123''
     = Inr (\<lparr>user_id = ''1'', email = ''test@example.com'',
              password = sample_hash ''password123'', role = USER\<rparr>,
            [\<lparr>user_id = ''1'', email = ''test@example.com'',
               password = sample_hash ''password123'', role = USER\<rparr>])"
  by (simp add: register_def isValidEmail_samples findByEmail_def Let_def)

lemma register_sample_admin:
  "register sample_hash ''2'' [] ''admin@example.com'' ''password123''
     = Inr (\<lparr>user_id = ''2'', email = ''admin@example.com'',
              password = sample_hash ''password123'', role = ADMIN\<rparr>,
            [\<lparr>user_id = ''2'', email = ''admin@example.com'',
               password = sample_hash ''password123'', role = ADMIN\<rparr>])"
  by (simp add: register_def isValidEmail_samples findByEmail_def Let_def)

subsection \<open>Role assignment\<close>

text \<open>
  Claim C5. The role of a user that \<open>register\<close> creates depends on the email alone: it is
  \<open>ADMIN\<close> when the email is \<^verbatim>\<open>admin@example.com\<close> and \<open>USER\<close> for every other email.
\<close>

theorem register_role_assignment:
  "register hash newId users e pw = Inr (u, users') \<Longrightarrow>
     role u = (if e = ''admin@example.com'' then ADMIN else USER)"
  by (auto simp: register_Inr_iff)

text \<open>The two registrations of the integration test: the administrator and a user.\<close>

theorem register_role_assignment_witness:
  "register sample_hash ''2'' [] ''admin@example.com'' ''password123''
     = Inr (\<lparr>user_id = ''2'', email = ''admin@example.com'',
              password = sample_hash ''password123'', role = ADMIN\<rparr>,
            [\<lparr>user_id = ''2'', email = ''admin@example.com'',
               password = sample_hash ''password123'', role = ADMIN\<rparr>])
   \<and> role \<lparr>user_id = ''2'', email = ''admin@example.com'',
              password = sample_hash ''password123'', role = ADMIN\<rparr> = ADMIN
   \<and> register sample_hash ''1'' [] ''test@example.com'' ''password123''
     = Inr (\<lparr>user_id = ''1'', email = ''test@example.com'',
              password = sample_hash ''password123'', role = USER\<rparr>,
            [\<lparr>user_id = ''1'', email = ''test@example.com'',
               password = sample_hash ''password123'', role = USER\<rparr>])
   \<and> role \<lparr>user_id = ''1'', email = ''test@example.com'',
              password = sample_hash ''password123'', role = USER\<rparr> = USER"
  using register_sample_admin register_sample_user
    register_role_assignment [OF register_sample_admin]
    register_role_assignment [OF register_sample_user]
  by simp

subsection \<open>Duplicate email\<close>

text \<open>
  Claim C4, as stated: a duplicate email fails with an error kind of its own, distinct
  from the kind of a malformed email. It does not: both are a \<^verbatim>\<open>BadRequestException\<close>,
  with the same status.
\<close>

theorem duplicate_email_kind_counterexample:
  "register sample_hash ''4'' [mockUser] ''user@example.com'' ''password123''
     = Inl (BadRequestException ''Email already exists'')
   \<and> register sample_hash ''4'' [mockUser] ''invalid-email'' ''password123''
     = Inl (BadRequestException ''Invalid email format'')
   \<and> getStatus (BadRequestException ''Email already exists'')
     = getStatus (BadRequestException ''Invalid email format'')"
  by (simp add: register_def isValidEmail_samples findByEmail_def mockUser_def)

text \<open>
  Claim C4, amended. For a well-formed email and a password of at least six characters,
  \<open>register\<close> fails with the \<^verbatim>\<open>BadRequestException\<close> of message \<^verbatim>\<open>Email already exists\<close>
  when the directory holds a user with this email; after a successful registration, a
  second one with the same email fails so; and a malformed email or a short password
  fails with a \<^verbatim>\<open>BadRequestException\<close> too, of another message.
\<close>

theorem register_duplicate_email:
  "(isValidEmail e \<and> 6 \<le> length pw \<and> findByEmail users e \<noteq> None \<longrightarrow>
      register hash newId users e pw = Inl (BadRequestException ''Email already exists''))
   \<and> (register hash newId users e pw = Inr (u, users') \<and> 6 \<le> length pw' \<longrightarrow>
      register hash' newId' users' e pw' = Inl (BadRequestException ''Email already exists''))
   \<and> (\<not> isValidEmail e \<or> length pw < 6 \<longrightarrow>
      (\<exists>m. register hash newId users e pw = Inl (BadRequestException m)
           \<and> m \<noteq> ''Email already exists''))"
proof (intro conjI impI)
  assume "isValidEmail e \<and> 6 \<le> length pw \<and> findByEmail users e \<noteq> None"
  then show "register hash newId users e pw = Inl (BadRequestException ''Email already exists'')"
    by (auto simp: register_def)
next
  assume h: "register hash newId users e pw = Inr (u, users') \<and> 6 \<le> length pw'"
  then have v: "isValidEmail e" and n: "findByEmail users e = None"
    and u: "email u = e" and us: "users' = users @ [u]"
    by (auto simp: register_Inr_iff)
  from n u us have "findByEmail users' e = Some u"
    by (simp add: findByEmail_append_new)
  with v h show "register hash' newId' users' e pw' = Inl (BadRequestException ''Email already exists'')"
    by (simp add: register_def)
next
  assume "\<not> isValidEmail e \<or> length pw < 6"
  then show "\<exists>m. register hash newId users e pw = Inl (BadRequestException m)
           \<and> m \<noteq> ''Email already exists''"
    by (auto simp: register_def)
qed

text \<open>
  An email already in the directory; the same email registered twice; a malformed email.
\<close>

theorem register_duplicate_email_witness:
  "isValidEmail ''user@example.com'' \<and> 6 \<le> length ''password123''
   \<and> findByEmail [mockUser] ''user@example.com'' \<noteq> None
   \<and> register sample_hash ''4'' [mockUser] ''user@example.com'' ''password123''
       = Inl (BadRequestException ''Email already exists'')
   \<and> register sample_hash ''1'' [] ''test@example.com'' ''password123''
       = Inr (\<lparr>user_id = ''1'', email = ''test@example.com'',
                password = sample_hash ''password123'', role = USER\<rparr>,
              [\<lparr>user_id = ''1'', email = ''test@example.com'',
                 password = sample_hash ''password123'', role = USER\<rparr>])
   \<and> register sample_hash ''2''
         [\<lparr>user_id = ''1'', email = ''test@example.com'',
            password = sample_hash ''password123'', role = USER\<rparr>]
         ''test@example.com'' ''password123''
       = Inl (BadRequestException ''Email already exists'')
   \<and> \<not> isValidEmail ''invalid-email''
   \<and> register sample_hash ''4'' [mockUser] ''invalid-email'' ''password123''
       = Inl (BadRequestException ''Invalid email format'')"
proof -
  have a: "isValidEmail ''user@example.com'' \<and> 6 \<le> length ''password123''
           \<and> findByEmail [mockUser] ''user@example.com'' \<noteq> None"
    by (simp add: isValidEmail_samples findByEmail_def mockUser_def)
  have b: "register sample_hash ''1'' [] ''test@example.com'' ''password123''
       = Inr (\<lparr>user_id = ''1'', email = ''test@example.com'',
                password = sample_hash ''password123'', role = USER\<rparr>,
              [\<lparr>user_id = ''1'', email = ''test@example.com'',
                 password = sample_hash ''password123'', role = USER\<rparr>])
       \<and> 6 \<le> length ''password123''"
    by (simp add: register_sample_user)
  have c: "\<not> isValidEmail ''invalid-email'' \<or> length ''password123'' < 6"
    by (simp add: isValidEmail_samples)
  have d: "register sample_hash ''4'' [mockUser] ''invalid-email'' ''password123''
       = Inl (BadRequestException ''Invalid email format'')"
    by (simp add: register_def isValidEmail_samples)
  note t1 = register_duplicate_email [of "''user@example.com''" "''password123''" "[mockUser]"
      sample_hash "''4''", THEN conjunct1, rule_format, OF a]
  note t2 = register_duplicate_email [of "''test@example.com''" "''password123''" "[]"
      sample_hash "''1''" _ _ "''password123''" sample_hash "''2''",
      THEN conjunct2, THEN conjunct1, rule_format, OF b]
  from a b c d t1 t2 show ?thesis by (simp add: isValidEmail_samples)
qed

section \<open>Credentials and tokens\<close>

subsection \<open>The password hash in returned values\<close>

lemma validateUser_Some_iff:
  "validateUser compare users e pw = Some r \<longleftrightarrow>
     (\<exists>u. findByEmail users e = Some u \<and> compare pw (password u) \<and> r = without_password u)"
  by (auto simp: validateUser_def split: option.splits)

lemma register_keeps_password_hash:
  "register hash newId users e pw = Inr (u, users') \<Longrightarrow> password u = hash pw"
  by (simp add: register_Inr_iff)

lemma validateUser_strips_password:
  "validateUser compare users e pw = Some r \<Longrightarrow> partial_password r = None"
  by (auto simp: validateUser_Some_iff without_password_def)

text \<open>
  Claim C2. \<open>validateUser\<close> returns the user without the password key
  (\<open>validateUser_strips_password\<close>), but the user that \<open>register\<close> returns is the saved
  entity, whose password key holds the hash (\<open>register_keeps_password_hash\<close>): the
  first registration of the integration test returns the hash of \<^verbatim>\<open>password123\<close>, and
  validating the same credentials returns the user without it.
\<close>

theorem register_returns_password_hash:
  "register sample_hash ''1'' [] ''test@example.com'' ''password123''
     = Inr (\<lparr>user_id = ''1'', email = ''test@example.com'',
              password = sample_hash ''password123'', role = USER\<rparr>,
            [\<lparr>user_id = ''1'', email = ''test@example.com'',
               password = sample_hash ''password123'', role = USER\<rparr>])
   \<and> password \<lparr>user_id = ''1'', email = ''test@example.com'',
                 password = sample_hash ''password123'', role = USER\<rparr>
     = ''$2b$10$password123''
   \<and> validateUser sample_compare
        [\<lparr>user_id = ''1'', email = ''test@example.com'',
           password = sample_hash ''password123'', role = USER\<rparr>]
        ''test@example.com'' ''password123''
     = Some \<lparr>partial_id = Some ''1'', partial_email = Some ''test@example.com'',
             partial_password = None, partial_role = Some USER\<rparr>"
  using register_sample_user
  by (simp add: validateUser_def findByEmail_def sample_compare_def without_password_def
      sample_hash_def)

subsection \<open>Refreshing tokens\<close>

text \<open>
  Claim C3. \<open>refreshToken\<close> fails with the \<^verbatim>\<open>UnauthorizedException\<close> when the verifier
  rejects the token, when the decoded payload lacks a subject id, an email or a role (the
  code tests each for truthiness, so an empty subject id or email counts as missing), and
  when no user has the payload's subject id. Otherwise it returns what \<open>login\<close> returns
  for the user it has just loaded: an access token and a refresh token, signed over this
  user's id, email and role.
\<close>

theorem refreshToken_cases:
  "(verify token = None \<longrightarrow>
      refreshToken verify sign signRefresh users token
        = Inl (UnauthorizedException ''Invalid refresh token''))
   \<and> (verify token = Some p \<and>
        (\<not> truthy (sub p) \<or> \<not> truthy (payload_email p) \<or> payload_role p = None) \<longrightarrow>
      refreshToken verify sign signRefresh users token
        = Inl (UnauthorizedException ''Invalid refresh token''))
   \<and> (verify token = Some p \<and> sub p = Some i \<and> findUserById users i = None \<longrightarrow>
      refreshToken verify sign signRefresh users token
        = Inl (UnauthorizedException ''Invalid refresh token''))
   \<and> (verify token = Some p \<and> truthy (sub p) \<and> truthy (payload_email p)
        \<and> payload_role p \<noteq> None \<and> sub p = Some i \<and> findUserById users i = Some u \<longrightarrow>
      refreshToken verify sign signRefresh users token
        = Inr (login sign signRefresh (as_partial u))
      \<and> login sign signRefresh (as_partial u)
        = \<lparr>access_token = sign \<lparr>sub = Some (user_id u), payload_email = Some (email u),
                                  payload_role = Some (role u)\<rparr>,
           refresh_token = signRefresh \<lparr>sub = Some (user_id u), payload_email = Some (email u),
                                  payload_role = Some (role u)\<rparr>\<rparr>)"
  by (auto simp: refreshToken_def login_def as_partial_def Let_def split: option.splits)

text \<open>
  A token the verifier rejects, a payload without an email, a subject that is no user's
  id, and the refresh token of the stored user.
\<close>

theorem refreshToken_cases_witness:
  "sample_verify ''garbage'' = None
   \<and> refreshToken sample_verify sample_sign sample_signRefresh [mockUser] ''garbage''
       = Inl (UnauthorizedException ''Invalid refresh token'')
   \<and> sample_verify ''refresh:no-email''
       = Some \<lparr>sub = Some ''1'', payload_email = None, payload_role = Some USER\<rparr>
   \<and> refreshToken sample_verify sample_sign sample_signRefresh [mockUser] ''refresh:no-email''
       = Inl (UnauthorizedException ''Invalid refresh token'')
   \<and> findUserById [mockUser] ''9'' = None
   \<and> refreshToken sample_verify sample_sign sample_signRefresh [mockUser] ''refresh:9''
       = Inl (UnauthorizedException ''Invalid refresh token'')
   \<and> findUserById [mockUser] ''1'' = Some mockUser
   \<and> refreshToken sample_verify sample_sign sample_signRefresh [mockUser] ''refresh:1''
       = Inr \<lparr>access_token = ''access:1'', refresh_token = ''refresh:1''\<rparr>"
proof -
  let ?p1 = "\<lparr>sub = Some ''1'', payload_email = Some ''user@example.com'',
              payload_role = Some USER\<rparr>"
  let ?p9 = "\<lparr>sub = Some ''9'', payload_email = Some ''gone@example.com'',
              payload_role = Some USER\<rparr>"
  let ?pn = "\<lparr>sub = Some ''1'', payload_email = None, payload_role = Some USER\<rparr>"
  have a: "sample_verify ''garbage'' = None"
    by (simp add: sample_verify_def)
  have b: "sample_verify ''refresh:no-email'' = Some ?pn \<and>
     (\<not> truthy (sub ?pn) \<or> \<not> truthy (payload_email ?pn) \<or> payload_role ?pn = None)"
    by (simp add: sample_verify_def truthy_def)
  have c: "sample_verify ''refresh:9'' = Some ?p9 \<and> sub ?p9 = Some ''9''
     \<and> findUserById [mockUser] ''9'' = None"
    by (simp add: sample_verify_def findUserById_def mockUser_def)
  have d: "sample_verify ''refresh:1'' = Some ?p1 \<and> truthy (sub ?p1)
     \<and> truthy (payload_email ?p1) \<and> payload_role ?p1 \<noteq> None \<and> sub ?p1 = Some ''1''
     \<and> findUserById [mockUser] ''1'' = Some mockUser"
    by (simp add: sample_verify_def findUserById_def mockUser_def truthy_def)
  note t = refreshToken_cases [where sign = sample_sign and signRefresh = sample_signRefresh
      and verify = sample_verify and users = "[mockUser]"]
  note t1 = t [where token = "''garbage''", THEN conjunct1, rule_format, OF a]
  note t2 = t [where token = "''refresh:no-email''" and p = ?pn,
      THEN conjunct2, THEN conjunct1, rule_format, OF b]
  note t3 = t [where token = "''refresh:9''" and p = ?p9 and i = "''9''",
      THEN conjunct2, THEN conjunct2, THEN conjunct1, rule_format, OF c]
  note t4 = t [where token = "''refresh:1''" and p = ?p1 and i = "''1''" and u = mockUser,
      THEN conjunct2, THEN conjunct2, THEN conjunct2, rule_format, OF d]
  from a b c d t1 t2 t3 t4 show ?thesis
    by (simp add: mockUser_def sample_sign_def sample_signRefresh_def)
qed

section \<open>Task service: lookups, store and update\<close>

lemma findOne_absent:
  "findTaskById rows i = None \<Longrightarrow>
     findOne rows i u = Inl (NotFoundException (''Task with ID '' @ i @ '' not found''))"
  by (simp add: findOne_def)

lemma findOne_present:
  "findTaskById rows i = Some t \<Longrightarrow>
     findOne rows i u =
       (if role u = ADMIN \<or> user_id (user t) = user_id u then Inr t
        else Inl (ForbiddenException ''You do not have permission to access this task''))"
  by (simp add: findOne_def)

lemma findOne_Inr_iff:
  "findOne rows i u = Inr t \<longleftrightarrow>
     findTaskById rows i = Some t \<and> (role u = ADMIN \<or> user_id (user t) = user_id u)"
  by (auto simp: findOne_def split: option.splits)

lemma save_Inr_iff:
  "save getTime now rows t = Inr (t', rows') \<longleftrightarrow>
     store_accepts getTime t \<and> t' = t\<lparr>userId := user_id (user t), updatedAt := now\<rparr>
     \<and> rows' = write_row rows t'"
  by (auto simp: save_def Let_def)

lemma save_not_denied:
  "save getTime now rows t \<noteq> Inl (ForbiddenException m)"
  "save getTime now rows t \<noteq> Inl (NotFoundException m)"
  "save getTime now rows t \<noteq> Inl (BadRequestException m)"
  by (simp_all add: save_def Let_def)

lemma update_Inr_iff:
  "update getTime now rows i p u = Inr (t', rows') \<longleftrightarrow>
     (\<exists>t. findOne rows i u = Inr t \<and> \<not> invalid_status (patch_status p)
        \<and> \<not> invalid_dueDate getTime (patch_dueDate p)
        \<and> save getTime now rows (assign t p) = Inr (t', rows'))"
  by (auto simp: update_def split: sum.splits)

lemma update_Inl_findOne:
  "findOne rows i u = Inl e \<Longrightarrow> update getTime now rows i p u = Inl e"
  by (simp add: update_def)

lemma findTaskById_write_same: "findTaskById (write_row rows t) (task_id t) = Some t"
proof (cases "findTaskById rows (task_id t)")
  case None
  then have "find (\<lambda>r. task_id r = task_id t) (rows @ [t]) = Some t"
    unfolding findTaskById_def by (induction rows) (auto split: if_splits)
  with None show ?thesis by (simp add: write_row_def findTaskById_def)
next
  case (Some old)
  then have "find (\<lambda>r. task_id r = task_id t)
      (map (\<lambda>r. if task_id r = task_id t then t else r) rows) = Some t"
    unfolding findTaskById_def by (induction rows) (auto split: if_splits)
  with Some show ?thesis by (simp add: write_row_def findTaskById_def)
qed

lemma findTaskById_write_other:
  "j \<noteq> task_id t \<Longrightarrow> findTaskById (write_row rows t) j = findTaskById rows j"
proof -
  assume j: "j \<noteq> task_id t"
  have a: "find (\<lambda>r. task_id r = j) (rows @ [t]) = find (\<lambda>r. task_id r = j) rows"
    using j by (induction rows) auto
  have b: "find (\<lambda>r. task_id r = j) (map (\<lambda>r. if task_id r = task_id t then t else r) rows)
      = find (\<lambda>r. task_id r = j) rows"
    using j by (induction rows) auto
  show ?thesis
    by (cases "findTaskById rows (task_id t)")
      (simp_all add: write_row_def findTaskById_def a b)
qed

lemma findTaskById_delete_other:
  "j \<noteq> task_id t \<Longrightarrow> findTaskById (delete_task rows t) j = findTaskById rows j"
  unfolding findTaskById_def delete_task_def by (induction rows) auto

lemma findTaskById_delete_same: "findTaskById (delete_task rows t) (task_id t) = None"
  unfolding findTaskById_def delete_task_def by (induction rows) auto

lemma findTaskById_id: "findTaskById rows i = Some t \<Longrightarrow> task_id t = i"
  unfolding findTaskById_def by (induction rows) (auto split: if_splits)

text \<open>
  What a successful \<open>update\<close> returns and stores: the loaded task with the patch assigned,
  the \<^verbatim>\<open>userId\<close> column and the update timestamp as the store writes them.
\<close>

lemma update_result:
  assumes "update getTime now rows i p u = Inr (t', rows')"
    and "findTaskById rows i = Some t"
  shows "t' = (assign t p)\<lparr>userId := user_id (user (assign t p)), updatedAt := now\<rparr>"
    and "rows' = write_row rows t'"
  using assms by (auto simp: update_Inr_iff findOne_Inr_iff save_Inr_iff)

lemma update_sample_status:
  "update sample_getTime time_updated [mockTask] ''1''
      (no_patch\<lparr>patch_status := Some ''DONE''\<rparr>) mockUser
     = Inr (mockTask\<lparr>status := ''DONE'', updatedAt := time_updated\<rparr>,
            [mockTask\<lparr>status := ''DONE'', updatedAt := time_updated\<rparr>])"
  by (simp add: update_def findOne_def findTaskById_def invalid_status_def
      invalid_dueDate_def TaskStatus_values_def save_def store_accepts_def write_row_def
      assign_def sample_getTime_def mockTask_def mockUser_def no_patch_def Let_def)

lemma findTaskById_mockTask: "findTaskById [mockTask] ''1'' = Some mockTask"
  by (simp add: findTaskById_def mockTask_def)

subsection \<open>Partial update\<close>

text \<open>
  Claim C8, as stated: every field that the patch does not carry keeps its value. The
  update timestamp does not: the update of the unit test, a patch with the status alone,
  returns the task with the update timestamp of the save.
\<close>

theorem update_changes_updatedAt_counterexample:
  "update sample_getTime time_updated [mockTask] ''1''
      \<lparr>patch_id = None, patch_title = None, patch_description = None,
       patch_status = Some ''DONE'', patch_dueDate = None, patch_user = None,
       patch_userId = None, patch_createdAt = None, patch_updatedAt = None\<rparr> mockUser
     = Inr (mockTask\<lparr>status := ''DONE'', updatedAt := time_updated\<rparr>,
            [mockTask\<lparr>status := ''DONE'', updatedAt := time_updated\<rparr>])
   \<and> findTaskById [mockTask] ''1'' = Some mockTask
   \<and> updatedAt (mockTask\<lparr>status := ''DONE'', updatedAt := time_updated\<rparr>)
       \<noteq> updatedAt mockTask"
  using update_sample_status findTaskById_mockTask
  by (simp add: no_patch_def mockTask_def time_updated_def time_created_def)

text \<open>
  Claim C8, amended. A successful \<open>update\<close> of an existing task returns a task in which
  the id, the title, the description, the status, the due date, the owner and the
  creation timestamp each have the value the patch gives them when the patch has the
  field, and the value they had before when the patch has not; the update timestamp is
  the one the store sets at the save, and the \<^verbatim>\<open>userId\<close> column is the id of the owner.
  The store then holds the returned task under its id, and every other row of the store
  is as it was.
\<close>

theorem update_partial_frame:
  "update getTime now rows i p u = Inr (t', rows') \<Longrightarrow> findTaskById rows i = Some t \<Longrightarrow>
     task_id t' = (case patch_id p of None \<Rightarrow> task_id t | Some v \<Rightarrow> v)
     \<and> title t' = (case patch_title p of None \<Rightarrow> title t | Some v \<Rightarrow> v)
     \<and> description t' = (case patch_description p of None \<Rightarrow> description t | Some v \<Rightarrow> Some v)
     \<and> status t' = (case patch_status p of None \<Rightarrow> status t | Some v \<Rightarrow> v)
     \<and> dueDate t' = (case patch_dueDate p of None \<Rightarrow> dueDate t | Some v \<Rightarrow> Some v)
     \<and> user t' = (case patch_user p of None \<Rightarrow> user t | Some v \<Rightarrow> v)
     \<and> createdAt t' = (case patch_createdAt p of None \<Rightarrow> createdAt t | Some v \<Rightarrow> v)
     \<and> updatedAt t' = now
     \<and> userId t' = user_id (user t')
     \<and> findTaskById rows' (task_id t') = Some t'
     \<and> (\<forall>j. j \<noteq> task_id t' \<longrightarrow> findTaskById rows' j = findTaskById rows j)"
proof -
  assume upd: "update getTime now rows i p u = Inr (t', rows')"
    and found: "findTaskById rows i = Some t"
  note t' = update_result(1) [OF upd found] and rows' = update_result(2) [OF upd found]
  have fields: "task_id t' = (case patch_id p of None \<Rightarrow> task_id t | Some v \<Rightarrow> v)
     \<and> title t' = (case patch_title p of None \<Rightarrow> title t | Some v \<Rightarrow> v)
     \<and> description t' = (case patch_description p of None \<Rightarrow> description t | Some v \<Rightarrow> Some v)
     \<and> status t' = (case patch_status p of None \<Rightarrow> status t | Some v \<Rightarrow> v)
     \<and> dueDate t' = (case patch_dueDate p of None \<Rightarrow> dueDate t | Some v \<Rightarrow> Some v)
     \<and> user t' = (case patch_user p of None \<Rightarrow> user t | Some v \<Rightarrow> v)
     \<and> createdAt t' = (case patch_createdAt p of None \<Rightarrow> createdAt t | Some v \<Rightarrow> v)
     \<and> updatedAt t' = now
     \<and> userId t' = user_id (user t')"
    by (simp add: t' assign_def)
  have stored: "findTaskById rows' (task_id t') = Some t'"
    by (simp add: rows' findTaskById_write_same)
  have others: "\<forall>j. j \<noteq> task_id t' \<longrightarrow> findTaskById rows' j = findTaskById rows j"
    by (simp add: rows' findTaskById_write_other)
  from fields stored others show ?thesis by blast
qed

text \<open>The update of the unit test again, field by field.\<close>

theorem update_partial_frame_witness:
  "update sample_getTime time_updated [mockTask] ''1''
      (no_patch\<lparr>patch_status := Some ''DONE''\<rparr>) mockUser
     = Inr (mockTask\<lparr>status := ''DONE'', updatedAt := time_updated\<rparr>,
            [mockTask\<lparr>status := ''DONE'', updatedAt := time_updated\<rparr>])
   \<and> findTaskById [mockTask] ''1'' = Some mockTask
   \<and> status (mockTask\<lparr>status := ''DONE'', updatedAt := time_updated\<rparr>) = ''DONE''
   \<and> task_id (mockTask\<lparr>status := ''DONE'', updatedAt := time_updated\<rparr>) = task_id mockTask
   \<and> title (mockTask\<lparr>status := ''DONE'', updatedAt := time_updated\<rparr>) = title mockTask
   \<and> description (mockTask\<lparr>status := ''DONE'', updatedAt := time_updated\<rparr>)
       = description mockTask
   \<and> dueDate (mockTask\<lparr>status := ''DONE'', updatedAt := time_updated\<rparr>) = dueDate mockTask
   \<and> user (mockTask\<lparr>status := ''DONE'', updatedAt := time_updated\<rparr>) = user mockTask
   \<and> createdAt (mockTask\<lparr>status := ''DONE'', updatedAt := time_updated\<rparr>)
       = createdAt mockTask
   \<and> updatedAt (mockTask\<lparr>status := ''DONE'', updatedAt := time_updated\<rparr>) = time_updated
   \<and> findTaskById [mockTask\<lparr>status := ''DONE'', updatedAt := time_updated\<rparr>] ''1''
       = Some (mockTask\<lparr>status := ''DONE'', updatedAt := time_updated\<rparr>)"
proof -
  let ?t = "mockTask\<lparr>status := ''DONE'', updatedAt := time_updated\<rparr>"
  note frame = update_partial_frame [OF update_sample_status findTaskById_mockTask]
  have fields: "status ?t = ''DONE''" "task_id ?t = task_id mockTask"
    "title ?t = title mockTask" "description ?t = description mockTask"
    "dueDate ?t = dueDate mockTask" "user ?t = user mockTask"
    "createdAt ?t = createdAt mockTask" "updatedAt ?t = time_updated"
    by simp_all
  have stored: "findTaskById [?t] ''1'' = Some ?t"
    by (simp add: findTaskById_def mockTask_def)
  from update_sample_status findTaskById_mockTask fields stored frame
  show ?thesis by blast
qed

section \<open>Ownership\<close>

lemma create_Inr_iff:
  "create getTime now newId rows dto u = Inr (t, rows') \<longleftrightarrow>
     truthy (dto_title dto) \<and> \<not> invalid_status (dto_status dto)
     \<and> \<not> invalid_dueDate getTime (dto_dueDate dto)
     \<and> store_accepts getTime (repository_create newId now dto u)
     \<and> t = repository_create newId now dto u \<and> rows' = rows @ [t]"
  by (auto simp: create_def Let_def insert_task_def)

lemma remove_task_Inr_iff:
  "remove_task rows i u = Inr rows' \<longleftrightarrow>
     (\<exists>t. findOne rows i u = Inr t \<and> rows' = delete_task rows t)"
  by (auto simp: remove_task_def split: sum.splits)

text \<open>
  Claim C9, as stated: no patch that \<open>update\<close> accepts changes the owner. The patch is a
  \<^verbatim>\<open>Partial<Task>\<close>, and one that carries the \<^verbatim>\<open>user\<close> key replaces the owner: the
  owner of the task updates it with another user as \<^verbatim>\<open>user\<close>.
\<close>

theorem update_changes_owner_counterexample:
  "update sample_getTime time_updated [mockTask] ''1''
      \<lparr>patch_id = None, patch_title = None, patch_description = None,
       patch_status = None, patch_dueDate = None, patch_user = Some otherUser,
       patch_userId = None, patch_createdAt = None, patch_updatedAt = None\<rparr> mockUser
     = Inr (mockTask\<lparr>user := otherUser, userId := ''3'', updatedAt := time_updated\<rparr>,
            [mockTask\<lparr>user := otherUser, userId := ''3'', updatedAt := time_updated\<rparr>])
   \<and> findTaskById [mockTask] ''1'' = Some mockTask
   \<and> user (mockTask\<lparr>user := otherUser, userId := ''3'', updatedAt := time_updated\<rparr>)
       \<noteq> user mockTask"
  by (simp add: update_def findOne_def findTaskById_def invalid_status_def
      invalid_dueDate_def save_def store_accepts_def TaskStatus_values_def sample_getTime_def
      write_row_def assign_def mockTask_def mockUser_def otherUser_def Let_def)

text \<open>
  Claim C9, amended. \<open>create\<close> makes the acting user the owner of the new task and adds
  it to the store. An \<open>update\<close> whose patch does not carry the \<^verbatim>\<open>user\<close> key returns and
  stores a task with the owner the task had before; when the patch carries neither
  \<^verbatim>\<open>user\<close> nor \<^verbatim>\<open>id\<close>, every task of the store has afterwards the owner it had before.
  \<open>remove\<close> leaves every task but the removed one as it was.
\<close>

theorem owner_fixed_without_owner_key:
  "(create getTime now newId rows dto u = Inr (t, rows') \<longrightarrow>
      user t = u \<and> rows' = rows @ [t])
   \<and> (update getTime now rows i p u = Inr (t', rows') \<and> findTaskById rows i = Some t
        \<and> patch_user p = None \<longrightarrow>
        user t' = user t \<and> findTaskById rows' (task_id t') = Some t')
   \<and> (update getTime now rows i p u = Inr (t', rows') \<and> patch_user p = None
        \<and> patch_id p = None \<longrightarrow>
        (\<forall>j. map_option user (findTaskById rows' j) = map_option user (findTaskById rows j)))
   \<and> (remove_task rows i u = Inr rows' \<longrightarrow>
        (\<forall>j. j \<noteq> i \<longrightarrow> findTaskById rows' j = findTaskById rows j))"
proof -
  have created: "create getTime now newId rows dto u = Inr (t, rows') \<longrightarrow>
      user t = u \<and> rows' = rows @ [t]"
    by (simp add: create_Inr_iff repository_create_def)
  have updated: "update getTime now rows i p u = Inr (t', rows')
        \<and> findTaskById rows i = Some t \<and> patch_user p = None \<longrightarrow>
        user t' = user t \<and> findTaskById rows' (task_id t') = Some t'"
  proof
    assume h: "update getTime now rows i p u = Inr (t', rows')
        \<and> findTaskById rows i = Some t \<and> patch_user p = None"
    then have upd: "update getTime now rows i p u = Inr (t', rows')"
      and found: "findTaskById rows i = Some t"
      by simp_all
    note t' = update_result(1) [OF upd found] and rows' = update_result(2) [OF upd found]
    from h have owner: "user (assign t p) = user t"
      by (simp add: assign_def)
    have stored: "findTaskById rows' (task_id t') = Some t'"
      by (simp add: rows' findTaskById_write_same)
    from owner stored t' show "user t' = user t \<and> findTaskById rows' (task_id t') = Some t'"
      by simp
  qed
  have owners: "update getTime now rows i p u = Inr (t', rows') \<and> patch_user p = None
        \<and> patch_id p = None \<longrightarrow>
        (\<forall>j. map_option user (findTaskById rows' j) = map_option user (findTaskById rows j))"
  proof
    assume h: "update getTime now rows i p u = Inr (t', rows') \<and> patch_user p = None
        \<and> patch_id p = None"
    then obtain t0 where f: "findTaskById rows i = Some t0"
      by (auto simp: update_Inr_iff findOne_Inr_iff)
    from h have upd: "update getTime now rows i p u = Inr (t', rows')"
      by simp
    note t' = update_result(1) [OF upd f] and rows' = update_result(2) [OF upd f]
    from h have "task_id (assign t0 p) = task_id t0" "user (assign t0 p) = user t0"
      by (simp_all add: assign_def)
    with t' have same: "task_id t' = task_id t0" "user t' = user t0"
      by simp_all
    from f have i: "task_id t0 = i" by (rule findTaskById_id)
    show "\<forall>j. map_option user (findTaskById rows' j) = map_option user (findTaskById rows j)"
    proof
      fix j
      show "map_option user (findTaskById rows' j) = map_option user (findTaskById rows j)"
      proof (cases "j = task_id t'")
        case True
        have "findTaskById rows' (task_id t') = Some t'"
          by (simp add: rows' findTaskById_write_same)
        with True same i f show ?thesis by simp
      next
        case False
        then show ?thesis by (simp add: rows' findTaskById_write_other)
      qed
    qed
  qed
  have removed: "remove_task rows i u = Inr rows' \<longrightarrow>
        (\<forall>j. j \<noteq> i \<longrightarrow> findTaskById rows' j = findTaskById rows j)"
  proof
    assume "remove_task rows i u = Inr rows'"
    then obtain t0 where f: "findTaskById rows i = Some t0"
      and rows': "rows' = delete_task rows t0"
      by (auto simp: remove_task_Inr_iff findOne_Inr_iff)
    from f have "task_id t0 = i" by (rule findTaskById_id)
    then show "\<forall>j. j \<noteq> i \<longrightarrow> findTaskById rows' j = findTaskById rows j"
      by (simp add: rows' findTaskById_delete_other)
  qed
  from created updated owners removed show ?thesis by (intro conjI)
qed

text \<open>The task of the unit tests: created, updated in its status, removed.\<close>

lemma create_sample_task:
  "create sample_getTime time_created ''1'' []
      \<lparr>dto_title = Some ''Test Task'', dto_description = Some ''Test Description'',
       dto_status = Some ''TODO'', dto_dueDate = Some ''2024-04-15T00:00:00.000Z''\<rparr> mockUser
     = Inr (mockTask, [mockTask])"
  by (simp add: create_def truthy_def invalid_status_def invalid_dueDate_def
      TaskStatus_values_def sample_getTime_def repository_create_def insert_task_def
      store_accepts_def mockTask_def mockUser_def Let_def)

lemma remove_sample_task:
  "remove_task [mockTask, otherTask] ''1'' mockUser = Inr [otherTask]"
  by (simp add: remove_task_def findOne_def findTaskById_def delete_task_def mockTask_def
      otherTask_def mockUser_def)

theorem owner_fixed_without_owner_key_witness:
  "create sample_getTime time_created ''1'' []
      \<lparr>dto_title = Some ''Test Task'', dto_description = Some ''Test Description'',
       dto_status = Some ''TODO'', dto_dueDate = Some ''2024-04-15T00:00:00.000Z''\<rparr> mockUser
     = Inr (mockTask, [mockTask])
   \<and> user mockTask = mockUser
   \<and> update sample_getTime time_updated [mockTask] ''1''
        (no_patch\<lparr>patch_status := Some ''DONE''\<rparr>) mockUser
     = Inr (mockTask\<lparr>status := ''DONE'', updatedAt := time_updated\<rparr>,
            [mockTask\<lparr>status := ''DONE'', updatedAt := time_updated\<rparr>])
   \<and> findTaskById [mockTask] ''1'' = Some mockTask
   \<and> patch_user (no_patch\<lparr>patch_status := Some ''DONE''\<rparr>) = None
   \<and> patch_id (no_patch\<lparr>patch_status := Some ''DONE''\<rparr>) = None
   \<and> user (mockTask\<lparr>status := ''DONE'', updatedAt := time_updated\<rparr>) = user mockTask
   \<and> map_option user
        (findTaskById [mockTask\<lparr>status := ''DONE'', updatedAt := time_updated\<rparr>] ''1'')
       = map_option user (findTaskById [mockTask] ''1'')
   \<and> remove_task [mockTask, otherTask] ''1'' mockUser = Inr [otherTask]
   \<and> findTaskById [otherTask] ''2'' = findTaskById [mockTask, otherTask] ''2''"
proof -
  let ?p = "no_patch\<lparr>patch_status := Some ''DONE''\<rparr>"
  have np: "patch_user ?p = None" "patch_id ?p = None"
    by (simp_all add: no_patch_def)
  note t = owner_fixed_without_owner_key
  note t1 = t [THEN conjunct1, rule_format, OF create_sample_task]
  note t2 = t [THEN conjunct2, THEN conjunct1, rule_format,
      OF conjI [OF update_sample_status conjI [OF findTaskById_mockTask np(1)]]]
  note t3 = t [THEN conjunct2, THEN conjunct2, THEN conjunct1, rule_format,
      OF conjI [OF update_sample_status conjI [OF np]], of "''1''"]
  note t4 = t [THEN conjunct2, THEN conjunct2, THEN conjunct2, rule_format,
      OF remove_sample_task, of "''2''"]
  from create_sample_task update_sample_status findTaskById_mockTask np remove_sample_task
    t1 t2 t3 t4
  show ?thesis by simp
qed

section \<open>Order of the checks of update\<close>

text \<open>
  Claim C10. \<open>update\<close> looks the task up and checks the acting user before it looks at
  the patch: whatever the patch holds, it fails with the \<^verbatim>\<open>NotFoundException\<close> when no
  task has the id, and with the \<^verbatim>\<open>ForbiddenException\<close> when the task exists and the
  acting user is neither an administrator nor its owner; it fails with a
  \<^verbatim>\<open>BadRequestException\<close> only for a task that exists and that the acting user may act
  on.
\<close>

theorem update_error_precedence:
  "(findTaskById rows i = None \<longrightarrow>
      update getTime now rows i p u
        = Inl (NotFoundException (''Task with ID '' @ i @ '' not found'')))
   \<and> (findTaskById rows i = Some t \<and> role u \<noteq> ADMIN \<and> user_id (user t) \<noteq> user_id u \<longrightarrow>
      update getTime now rows i p u
        = Inl (ForbiddenException ''You do not have permission to access this task''))
   \<and> (update getTime now rows i p u = Inl (BadRequestException m) \<longrightarrow>
      (\<exists>t. findTaskById rows i = Some t
         \<and> (role u = ADMIN \<or> user_id (user t) = user_id u)))"
proof -
  have absent: "findTaskById rows i = None \<longrightarrow>
      update getTime now rows i p u
        = Inl (NotFoundException (''Task with ID '' @ i @ '' not found''))"
    by (simp add: findOne_absent update_Inl_findOne)
  have denied: "findTaskById rows i = Some t \<and> role u \<noteq> ADMIN
        \<and> user_id (user t) \<noteq> user_id u \<longrightarrow>
      update getTime now rows i p u
        = Inl (ForbiddenException ''You do not have permission to access this task'')"
    by (auto simp: findOne_present update_Inl_findOne)
  have invalid: "update getTime now rows i p u = Inl (BadRequestException m) \<longrightarrow>
      (\<exists>t. findTaskById rows i = Some t
         \<and> (role u = ADMIN \<or> user_id (user t) = user_id u))"
    by (auto simp: update_def findOne_def split: option.splits if_splits)
  from absent denied invalid show ?thesis by (intro conjI)
qed



lemma update_bad_patch_owner:
  "update sample_getTime time_updated [mockTask] ''1'' bad_patch mockUser
     = Inl (BadRequestException ''Invalid task status'')"
  by (simp add: update_def findOne_def findTaskById_def invalid_status_def
      TaskStatus_values_def bad_patch_def no_patch_def mockTask_def mockUser_def)

theorem update_error_precedence_witness:
  "findTaskById [mockTask] ''999'' = None
   \<and> update sample_getTime time_updated [mockTask] ''999'' bad_patch mockUser
       = Inl (NotFoundException ''Task with ID 999 not found'')
   \<and> findTaskById [mockTask] ''1'' = Some mockTask
   \<and> role otherUser \<noteq> ADMIN \<and> user_id (user mockTask) \<noteq> user_id otherUser
   \<and> update sample_getTime time_updated [mockTask] ''1'' bad_patch otherUser
       = Inl (ForbiddenException ''You do not have permission to access this task'')
   \<and> update sample_getTime time_updated [mockTask] ''1'' bad_patch mockUser
       = Inl (BadRequestException ''Invalid task status'')
   \<and> user_id (user mockTask) = user_id mockUser"
proof -
  have a: "findTaskById [mockTask] ''999'' = None"
    by (simp add: findTaskById_def mockTask_def)
  have b: "findTaskById [mockTask] ''1'' = Some mockTask \<and> role otherUser \<noteq> ADMIN
      \<and> user_id (user mockTask) \<noteq> user_id otherUser"
    using findTaskById_mockTask by (simp add: mockTask_def otherUser_def mockUser_def)
  note c = update_bad_patch_owner
  note t = update_error_precedence [where getTime = sample_getTime and now = time_updated
      and rows = "[mockTask]" and p = bad_patch]
  note t1 = t [where i = "''999''" and u = mockUser, THEN conjunct1, rule_format, OF a]
  note t2 = t [where i = "''1''" and u = otherUser and t = mockTask,
      THEN conjunct2, THEN conjunct1, rule_format, OF b]
  note t3 = t [where i = "''1''" and u = mockUser,
      THEN conjunct2, THEN conjunct2, rule_format, OF c]
  have d: "user_id (user mockTask) = user_id mockUser"
    by (simp add: mockTask_def)
  from a b c d t1 t2 t3 show ?thesis by simp
qed

section \<open>Validation of task writes\<close>









section \<open>Listing tasks\<close>

subsection \<open>Numbers within the exact range\<close>






subsection \<open>The answer to a query\<close>


lemma findAll_Inr_tasks:
  "findAll getTime rows u s d page limit = Inr r \<Longrightarrow>
     set (tasks r) \<subseteq> set (filter (row_matches getTime (query_of u s d)) rows)
     \<and> total_count r = length (filter (row_matches getTime (query_of u s d)) rows)"
proof -
  let ?m = "filter (row_matches getTime (query_of u s d)) rows"
  assume "findAll getTime rows u s d page limit = Inr r"
  then have r: "r = \<lparr>tasks = take (nat (limit_or_10 limit)) (drop (nat (skip_of page limit)) ?m),
              total_count = length ?m\<rparr>"
    by (auto simp: findAll_def getManyAndCount_def Let_def split: if_splits)
  have "set (take (nat (limit_or_10 limit)) (drop (nat (skip_of page limit)) ?m)) \<subseteq> set ?m"
    using set_take_subset set_drop_subset by (rule subset_trans)
  with r show ?thesis by simp
qed

subsection \<open>Pagination\<close>






subsection \<open>Access control\<close>

text \<open>
  Claim C1. For a task of the store, \<open>findOne\<close>, \<open>update\<close> and \<open>remove\<close> get past the
  authorization check exactly when the acting user is an administrator or has the id of
  the task's owner, and fail with the \<^verbatim>\<open>ForbiddenException\<close> otherwise; \<open>findAll\<close>
  returns only tasks the acting user owns when this user is no administrator, and for an
  administrator it is the query with the status and due date clauses alone, without an
  owner clause: its matching rows are those the two filters select.
\<close>

theorem task_access_control:
  "(findTaskById rows i = Some t \<longrightarrow>
      findOne rows i u
        = (if role u = ADMIN \<or> user_id (user t) = user_id u then Inr t
           else Inl (ForbiddenException ''You do not have permission to access this task''))
      \<and> ((update getTime now rows i p u
            = Inl (ForbiddenException ''You do not have permission to access this task''))
          \<longleftrightarrow> \<not> (role u = ADMIN \<or> user_id (user t) = user_id u))
      \<and> (\<forall>m. update getTime now rows i p u \<noteq> Inl (NotFoundException m))
      \<and> remove_task rows i u
        = (if role u = ADMIN \<or> user_id (user t) = user_id u then Inr (delete_task rows t)
           else Inl (ForbiddenException ''You do not have permission to access this task'')))
   \<and> (role u \<noteq> ADMIN \<and> findAll getTime rows u s d page limit = Inr r \<longrightarrow>
        (\<forall>x \<in> set (tasks r). user_id (user x) = user_id u))
   \<and> (role u = ADMIN \<longrightarrow>
        findAll getTime rows u s d page limit
          = getManyAndCount getTime rows
              \<lparr>where_userId = None,
               where_status = (if truthy s then s else None),
               where_dueDate = d\<rparr>
              (skip_of page limit) (limit_or_10 limit)
        \<and> filter (row_matches getTime (query_of u s d)) rows
          = filter (\<lambda>x. (truthy s \<longrightarrow> Some (status x) = s)
                      \<and> (\<forall>v. d = Some v \<longrightarrow>
                            v \<noteq> None \<and> (\<exists>z. dueDate x = Some z \<and> getTime z = v))) rows)"
proof -
  have single: "findTaskById rows i = Some t \<longrightarrow>
      findOne rows i u
        = (if role u = ADMIN \<or> user_id (user t) = user_id u then Inr t
           else Inl (ForbiddenException ''You do not have permission to access this task''))
      \<and> ((update getTime now rows i p u
            = Inl (ForbiddenException ''You do not have permission to access this task''))
          \<longleftrightarrow> \<not> (role u = ADMIN \<or> user_id (user t) = user_id u))
      \<and> (\<forall>m. update getTime now rows i p u \<noteq> Inl (NotFoundException m))
      \<and> remove_task rows i u
        = (if role u = ADMIN \<or> user_id (user t) = user_id u then Inr (delete_task rows t)
           else Inl (ForbiddenException ''You do not have permission to access this task''))"
    by (auto simp: findOne_present update_def remove_task_def save_not_denied)
  have own: "role u \<noteq> ADMIN \<and> findAll getTime rows u s d page limit = Inr r \<longrightarrow>
        (\<forall>x \<in> set (tasks r). user_id (user x) = user_id u)"
  proof
    assume h: "role u \<noteq> ADMIN \<and> findAll getTime rows u s d page limit = Inr r"
    then have "findAll getTime rows u s d page limit = Inr r" by simp
    then have "set (tasks r) \<subseteq> set (filter (row_matches getTime (query_of u s d)) rows)"
      by (rule findAll_Inr_tasks [THEN conjunct1])
    with h show "\<forall>x \<in> set (tasks r). user_id (user x) = user_id u"
      by (auto simp: row_matches_def query_of_def)
  qed
  have all: "role u = ADMIN \<longrightarrow>
        findAll getTime rows u s d page limit
          = getManyAndCount getTime rows
              \<lparr>where_userId = None,
               where_status = (if truthy s then s else None),
               where_dueDate = d\<rparr>
              (skip_of page limit) (limit_or_10 limit)
        \<and> filter (row_matches getTime (query_of u s d)) rows
          = filter (\<lambda>x. (truthy s \<longrightarrow> Some (status x) = s)
                      \<and> (\<forall>v. d = Some v \<longrightarrow>
                            v \<noteq> None \<and> (\<exists>z. dueDate x = Some z \<and> getTime z = v))) rows"
  proof
    assume admin: "role u = ADMIN"
    then have "row_matches getTime (query_of u s d)
        = (\<lambda>x. (truthy s \<longrightarrow> Some (status x) = s)
               \<and> (\<forall>v. d = Some v \<longrightarrow>
                     v \<noteq> None \<and> (\<exists>z. dueDate x = Some z \<and> getTime z = v)))"
      by (intro ext) (auto simp: row_matches_def query_of_def truthy_def split: option.splits)
    with admin show "findAll getTime rows u s d page limit
          = getManyAndCount getTime rows
              \<lparr>where_userId = None,
               where_status = (if truthy s then s else None),
               where_dueDate = d\<rparr>
              (skip_of page limit) (limit_or_10 limit)
        \<and> filter (row_matches getTime (query_of u s d)) rows
          = filter (\<lambda>x. (truthy s \<longrightarrow> Some (status x) = s)
                      \<and> (\<forall>v. d = Some v \<longrightarrow>
                            v \<noteq> None \<and> (\<exists>z. dueDate x = Some z \<and> getTime z = v))) rows"
      by (simp add: findAll_def query_of_def)
  qed
  from single own all show ?thesis by (intro conjI)
qed

text \<open>
  The task of the unit tests, read, updated and removed by its owner, by another user and
  by the administrator; and a store of two tasks of two owners, listed by one of them and
  by the administrator.
\<close>

lemma findAll_two_users:
  "findAll sample_getTime [mockTask, otherTask] mockUser None None None None
     = Inr \<lparr>tasks = [mockTask], total_count = 1\<rparr>"
  "findAll sample_getTime [mockTask, otherTask] mockAdminUser None None None None
     = Inr \<lparr>tasks = [mockTask, otherTask], total_count = 2\<rparr>"
  by (simp_all add: findAll_def getManyAndCount_def query_of_def row_matches_def truthy_def
      skip_of_def limit_or_10_def max_bigint_def mockTask_def otherTask_def mockUser_def
      otherUser_def mockAdminUser_def)

theorem task_access_control_witness:
  "findTaskById [mockTask] ''1'' = Some mockTask
   \<and> findOne [mockTask] ''1'' mockUser = Inr mockTask
   \<and> findOne [mockTask] ''1'' mockAdminUser = Inr mockTask
   \<and> findOne [mockTask] ''1'' otherUser
       = Inl (ForbiddenException ''You do not have permission to access this task'')
   \<and> update sample_getTime time_updated [mockTask] ''1''
        (no_patch\<lparr>patch_status := Some ''DONE''\<rparr>) otherUser
       = Inl (ForbiddenException ''You do not have permission to access this task'')
   \<and> update sample_getTime time_updated [mockTask] ''1''
        (no_patch\<lparr>patch_status := Some ''DONE''\<rparr>) mockAdminUser
       \<noteq> Inl (ForbiddenException ''You do not have permission to access this task'')
   \<and> remove_task [mockTask] ''1'' otherUser
       = Inl (ForbiddenException ''You do not have permission to access this task'')
   \<and> remove_task [mockTask] ''1'' mockAdminUser = Inr []
   \<and> role mockUser \<noteq> ADMIN
   \<and> findAll sample_getTime [mockTask, otherTask] mockUser None None None None
       = Inr \<lparr>tasks = [mockTask], total_count = 1\<rparr>
   \<and> user_id (user mockTask) = user_id mockUser
   \<and> role mockAdminUser = ADMIN
   \<and> findAll sample_getTime [mockTask, otherTask] mockAdminUser None None None None
       = Inr \<lparr>tasks = [mockTask, otherTask], total_count = 2\<rparr>"
proof -
  let ?p = "no_patch\<lparr>patch_status := Some ''DONE''\<rparr>"
  note t = task_access_control [where getTime = sample_getTime and now = time_updated
      and p = ?p and s = None and d = None and page = None and limit = None]
  note single = t [where rows = "[mockTask]" and i = "''1''" and t = mockTask,
      THEN conjunct1, rule_format, OF findTaskById_mockTask]
  have roles: "role mockUser \<noteq> ADMIN" "role otherUser \<noteq> ADMIN" "role mockAdminUser = ADMIN"
    by (simp_all add: mockUser_def otherUser_def mockAdminUser_def)
  have ids: "user_id (user mockTask) = user_id mockUser"
    "user_id (user mockTask) \<noteq> user_id otherUser"
    "user_id (user mockTask) \<noteq> user_id mockAdminUser"
    by (simp_all add: mockTask_def mockUser_def otherUser_def mockAdminUser_def)
  note own = t [where rows = "[mockTask, otherTask]" and u = mockUser,
      THEN conjunct2, THEN conjunct1, rule_format,
      OF conjI [OF roles(1) findAll_two_users(1)], of mockTask]
  note all = t [where rows = "[mockTask, otherTask]" and u = mockAdminUser,
      THEN conjunct2, THEN conjunct2, rule_format, OF roles(3)]
  have del: "delete_task [mockTask] mockTask = []"
    by (simp add: delete_task_def)
  from findTaskById_mockTask roles ids findAll_two_users del own all
    single [of mockUser] single [of otherUser] single [of mockAdminUser]
  show ?thesis by simp
qed

end
